theory Spec2Isabelle
  imports Main "HOL-Library.Finite_Map"
begin

section \<open>The fleet registry of \<^verbatim>\<open>main.go\<close>\<close>

subsection \<open>Data model\<close>

text \<open>
  The four sentinel errors declared at the top of \<^verbatim>\<open>main.go\<close>. A Go result of
  type \<^verbatim>\<open>error\<close> is an \<open>error option\<close>: \<open>None\<close> is \<^verbatim>\<open>nil\<close>.
\<close>

datatype error = ErrTruckNotFound | ErrTruckExist | ErrInvalidCargo | ErrEmptyID

text \<open>
  \<^verbatim>\<open>type Truck struct { ID string; Cargo int }\<close>. The code only stores \<^verbatim>\<open>Cargo\<close> and
  compares it with zero, it never computes with it, so no overflow can occur
  and the field is an \<open>int\<close>.
\<close>

record Truck =
  ID :: string
  Cargo :: int

text \<open>
  The registry is \<^verbatim>\<open>map[string]*Truck\<close>: the map holds pointers, and the records
  live in the Go heap. A pointer is an address; \<open>heap\<close> gives the record
  each address holds, and \<open>fresh\<close> is the next address that \<^verbatim>\<open>&Truck{...}\<close>
  hands out (every address below it has been allocated). The map never holds
  \<^verbatim>\<open>nil\<close>: the only store into it is of a new \<^verbatim>\<open>&Truck{...}\<close>. A Go map is
  finite, hence an \<open>fmap\<close>. The embedded \<^verbatim>\<open>sync.RWMutex\<close> has no
  sequential content: each operation runs from \<^verbatim>\<open>Lock\<close> to its deferred
  \<^verbatim>\<open>Unlock\<close> as one step.
\<close>

type_synonym ptr = nat

record truckManager =
  trucks :: "(string, ptr) fmap"
  heap :: "ptr \<Rightarrow> Truck"
  fresh :: ptr

text \<open>The zero value \<^verbatim>\<open>Truck{}\<close>, returned beside every error of \<^verbatim>\<open>GetTruck\<close>.\<close>

definition zeroTruck :: Truck where
  "zeroTruck = \<lparr>ID = [], Cargo = 0\<rparr>"

subsection \<open>Operations\<close>

text \<open>\<^verbatim>\<open>NewTruckManager\<close>: an empty map; nothing has been allocated yet.\<close>

definition NewTruckManager :: truckManager where
  "NewTruckManager = \<lparr>trucks = fmempty, heap = (\<lambda>_. zeroTruck), fresh = 0\<rparr>"

text \<open>
  \<^verbatim>\<open>AddTruck\<close>: the checks in the order of the source (empty id, negative
  cargo, key present), then the store of a pointer to a newly allocated record.
  Each operation returns its Go result paired with the state it leaves.
\<close>

definition AddTruck :: "truckManager \<Rightarrow> string \<Rightarrow> int \<Rightarrow> error option \<times> truckManager" where
  "AddTruck tm tid cargo =
     (if tid = [] then (Some ErrEmptyID, tm)
      else if cargo < 0 then (Some ErrInvalidCargo, tm)
      else (case fmlookup (trucks tm) tid of
              Some _ \<Rightarrow> (Some ErrTruckExist, tm)
            | None \<Rightarrow>
                (let p = fresh tm
                 in (None,
                     tm\<lparr>trucks := fmupd tid p (trucks tm),
                        heap := (heap tm)(p := \<lparr>ID = tid, Cargo = cargo\<rparr>),
                        fresh := Suc p\<rparr>))))"

text \<open>\<^verbatim>\<open>GetTruck\<close> returns \<^verbatim>\<open>*truck\<close>, the record the pointer refers to, by value.\<close>

definition GetTruck :: "truckManager \<Rightarrow> string \<Rightarrow> (Truck \<times> error option) \<times> truckManager" where
  "GetTruck tm tid =
     (if tid = [] then ((zeroTruck, Some ErrEmptyID), tm)
      else (case fmlookup (trucks tm) tid of
              None \<Rightarrow> ((zeroTruck, Some ErrTruckNotFound), tm)
            | Some truck \<Rightarrow> ((heap tm truck, None), tm)))"

text \<open>\<^verbatim>\<open>UpdateTruckCargo\<close> writes \<^verbatim>\<open>truck.Cargo = cargo\<close> through the stored pointer.\<close>

definition UpdateTruckCargo :: "truckManager \<Rightarrow> string \<Rightarrow> int \<Rightarrow> error option \<times> truckManager" where
  "UpdateTruckCargo tm tid cargo =
     (if tid = [] then (Some ErrEmptyID, tm)
      else if cargo < 0 then (Some ErrInvalidCargo, tm)
      else (case fmlookup (trucks tm) tid of
              None \<Rightarrow> (Some ErrTruckNotFound, tm)
            | Some truck \<Rightarrow>
                (None, tm\<lparr>heap := (heap tm)(truck := (heap tm truck)\<lparr>Cargo := cargo\<rparr>)\<rparr>)))"

text \<open>\<^verbatim>\<open>RemoveTruck\<close> deletes the key; the record it pointed to is left to the collector.\<close>

definition RemoveTruck :: "truckManager \<Rightarrow> string \<Rightarrow> error option \<times> truckManager" where
  "RemoveTruck tm tid =
     (if tid = [] then (Some ErrEmptyID, tm)
      else (case fmlookup (trucks tm) tid of
              None \<Rightarrow> (Some ErrTruckNotFound, tm)
            | Some _ \<Rightarrow> (None, tm\<lparr>trucks := fmdrop tid (trucks tm)\<rparr>)))"

subsection \<open>Invariants and sequences of calls\<close>

text \<open>
  The invariant of the data model: every key of the map is non-empty and the
  record its pointer refers to has a cargo \<open>\<ge> 0\<close>. That a key occurs once is
  carried by the map itself, in Go as here.
\<close>

definition registry_inv :: "truckManager \<Rightarrow> bool" where
  "registry_inv tm = fmpred (\<lambda>k p. k \<noteq> [] \<and> 0 \<le> Cargo (heap tm p)) (trucks tm)"

text \<open>
  What the pointers satisfy: the record stored under a key carries that key
  as its \<^verbatim>\<open>ID\<close>, and its address has been allocated. Two keys therefore never
  share a record.
\<close>

definition cells_inv :: "truckManager \<Rightarrow> bool" where
  "cells_inv tm = fmpred (\<lambda>k p. ID (heap tm p) = k \<and> p < fresh tm) (trucks tm)"

text \<open>
  The registries a program can hold are those built by \<^verbatim>\<open>NewTruckManager()\<close>
  followed by calls of the four methods, as in \<^verbatim>\<open>main\<close>: the field \<^verbatim>\<open>trucks\<close> is
  unexported and no pointer to a stored record ever leaves the methods. A
  \<open>call\<close> is one method call with its arguments, \<open>step\<close> the state it
  leaves, and \<open>run\<close> a sequence of calls.
\<close>

datatype call =
    CallAddTruck string int
  | CallGetTruck string
  | CallUpdateTruckCargo string int
  | CallRemoveTruck string

fun step :: "truckManager \<Rightarrow> call \<Rightarrow> truckManager" where
  "step tm (CallAddTruck tid cargo) = snd (AddTruck tm tid cargo)"
| "step tm (CallGetTruck tid) = snd (GetTruck tm tid)"
| "step tm (CallUpdateTruckCargo tid cargo) = snd (UpdateTruckCargo tm tid cargo)"
| "step tm (CallRemoveTruck tid) = snd (RemoveTruck tm tid)"

fun run :: "truckManager \<Rightarrow> call list \<Rightarrow> truckManager" where
  "run tm [] = tm"
| "run tm (c # cs) = run (step tm c) cs"

subsection \<open>Preservation lemmas\<close>

lemma registry_inv_New: "registry_inv NewTruckManager"
  by (simp add: registry_inv_def NewTruckManager_def)

lemma registry_inv_AddTruck:
  "registry_inv tm \<Longrightarrow> registry_inv (snd (AddTruck tm tid cargo))"
  by (auto simp: registry_inv_def AddTruck_def Let_def fmpred_iff split: option.splits if_splits)

lemma registry_inv_GetTruck:
  "registry_inv tm \<Longrightarrow> registry_inv (snd (GetTruck tm tid))"
  by (simp add: GetTruck_def split: option.splits)

lemma registry_inv_UpdateTruckCargo:
  "registry_inv tm \<Longrightarrow> registry_inv (snd (UpdateTruckCargo tm tid cargo))"
  by (auto simp: registry_inv_def UpdateTruckCargo_def fmpred_iff split: option.splits)

lemma registry_inv_RemoveTruck:
  "registry_inv tm \<Longrightarrow> registry_inv (snd (RemoveTruck tm tid))"
  by (auto simp: registry_inv_def RemoveTruck_def fmpred_iff split: option.splits if_splits)

lemma cells_inv_New: "cells_inv NewTruckManager"
  by (simp add: cells_inv_def NewTruckManager_def)

lemma cells_inv_AddTruck:
  "cells_inv tm \<Longrightarrow> cells_inv (snd (AddTruck tm tid cargo))"
  by (auto simp: cells_inv_def AddTruck_def Let_def fmpred_iff less_Suc_eq
      split: option.splits if_splits)

lemma cells_inv_GetTruck:
  "cells_inv tm \<Longrightarrow> cells_inv (snd (GetTruck tm tid))"
  by (simp add: GetTruck_def split: option.splits)

lemma cells_inv_UpdateTruckCargo:
  "cells_inv tm \<Longrightarrow> cells_inv (snd (UpdateTruckCargo tm tid cargo))"
  by (auto simp: cells_inv_def UpdateTruckCargo_def fmpred_iff split: option.splits)

lemma cells_inv_RemoveTruck:
  "cells_inv tm \<Longrightarrow> cells_inv (snd (RemoveTruck tm tid))"
  by (auto simp: cells_inv_def RemoveTruck_def fmpred_iff split: option.splits if_splits)

lemma step_invs:
  assumes "registry_inv tm \<and> cells_inv tm"
  shows "registry_inv (step tm c) \<and> cells_inv (step tm c)"
proof (cases c)
  case (CallAddTruck tid cargo)
  with assms show ?thesis
    by (simp add: registry_inv_AddTruck cells_inv_AddTruck)
next
  case (CallGetTruck tid)
  with assms show ?thesis
    by (simp add: registry_inv_GetTruck cells_inv_GetTruck)
next
  case (CallUpdateTruckCargo tid cargo)
  with assms show ?thesis
    by (simp add: registry_inv_UpdateTruckCargo cells_inv_UpdateTruckCargo)
next
  case (CallRemoveTruck tid)
  with assms show ?thesis
    by (simp add: registry_inv_RemoveTruck cells_inv_RemoveTruck)
qed

lemma run_invs:
  "registry_inv tm \<and> cells_inv tm \<Longrightarrow> registry_inv (run tm cs) \<and> cells_inv (run tm cs)"
proof (induction cs arbitrary: tm)
  case Nil
  then show ?case by simp
next
  case (Cons c cs)
  from Cons.prems have "registry_inv (step tm c) \<and> cells_inv (step tm c)"
    by (rule step_invs)
  then have "registry_inv (run (step tm c) cs) \<and> cells_inv (run (step tm c) cs)"
    by (rule Cons.IH)
  then show ?case by simp
qed

lemma run_New_invs:
  "registry_inv (run NewTruckManager cs) \<and> cells_inv (run NewTruckManager cs)"
  by (rule run_invs) (simp add: registry_inv_New cells_inv_New)

text \<open>Under \<open>cells_inv\<close> two keys with the same pointer are the same key.\<close>

lemma cells_inv_inj:
  assumes "cells_inv tm"
    and "fmlookup (trucks tm) k = Some p" and "fmlookup (trucks tm) k' = Some p"
  shows "k = k'"
proof -
  from assms(1,2) have "ID (heap tm p) = k" by (auto simp: cells_inv_def fmpred_iff)
  moreover from assms(1,3) have "ID (heap tm p) = k'" by (auto simp: cells_inv_def fmpred_iff)
  ultimately show ?thesis by simp
qed

subsection \<open>Add, then get\<close>

text \<open>
  C1. For every non-empty id that is not yet a key and every cargo \<open>\<ge> 0\<close>,
  \<^verbatim>\<open>AddTruck(id, cargo)\<close> returns \<^verbatim>\<open>nil\<close>, and \<^verbatim>\<open>GetTruck(id)\<close> on the state it
  leaves returns the record \<open>{id, cargo}\<close> with a \<^verbatim>\<open>nil\<close> error.
\<close>

theorem AddTruck_then_GetTruck:
  assumes "tid \<noteq> []" and "tid |\<notin>| fmdom (trucks tm)" and "0 \<le> cargo"
  shows "fst (AddTruck tm tid cargo) = None \<and>
         fst (GetTruck (snd (AddTruck tm tid cargo)) tid) = (\<lparr>ID = tid, Cargo = cargo\<rparr>, None)"
proof -
  from assms(2) have "fmlookup (trucks tm) tid = None" by (rule fmdom_notD)
  with assms(1,3) show ?thesis by (simp add: AddTruck_def GetTruck_def Let_def)
qed

theorem AddTruck_then_GetTruck_witness:
  "''truck1'' \<noteq> [] \<and> ''truck1'' |\<notin>| fmdom (trucks NewTruckManager) \<and> (0::int) \<le> 1000 \<and>
   fst (AddTruck NewTruckManager ''truck1'' 1000) = None \<and>
   fst (GetTruck (snd (AddTruck NewTruckManager ''truck1'' 1000)) ''truck1'')
     = (\<lparr>ID = ''truck1'', Cargo = 1000\<rparr>, None)"
  using AddTruck_then_GetTruck [of "''truck1''" NewTruckManager 1000]
  by (simp add: NewTruckManager_def)

subsection \<open>The registry invariant\<close>

text \<open>
  C2. The registry invariant (every stored key is non-empty and every stored
  record has a cargo \<open>\<ge> 0\<close>; keys are unique because the registry is a map)
  holds of \<^verbatim>\<open>NewTruckManager()\<close>, and each of \<^verbatim>\<open>AddTruck\<close>, \<^verbatim>\<open>GetTruck\<close>,
  \<^verbatim>\<open>UpdateTruckCargo\<close> and \<^verbatim>\<open>RemoveTruck\<close> leaves it true of the state after the
  call, for all arguments, whether the call returns \<^verbatim>\<open>nil\<close> or an error.
\<close>

theorem registry_inv_preserved:
  "registry_inv NewTruckManager \<and>
   (registry_inv tm \<longrightarrow>
      registry_inv (snd (AddTruck tm tid cargo)) \<and>
      registry_inv (snd (GetTruck tm tid)) \<and>
      registry_inv (snd (UpdateTruckCargo tm tid cargo)) \<and>
      registry_inv (snd (RemoveTruck tm tid)))"
  by (simp add: registry_inv_New registry_inv_AddTruck registry_inv_GetTruck
      registry_inv_UpdateTruckCargo registry_inv_RemoveTruck)

text \<open>
  The instance: the registry holding \<open>truck1\<close> with cargo 1000 satisfies the
  invariant, and so do the states after a failing add (negative cargo), a get,
  an update and a remove on it.
\<close>

theorem registry_inv_preserved_witness:
  "registry_inv (snd (AddTruck NewTruckManager ''truck1'' 1000)) \<and>
   fmlookup (trucks (snd (AddTruck NewTruckManager ''truck1'' 1000))) ''truck1'' = Some 0 \<and>
   fst (AddTruck (snd (AddTruck NewTruckManager ''truck1'' 1000)) ''truck1'' (- 5))
     = Some ErrInvalidCargo \<and>
   registry_inv (snd (AddTruck (snd (AddTruck NewTruckManager ''truck1'' 1000)) ''truck1'' (- 5))) \<and>
   registry_inv (snd (GetTruck (snd (AddTruck NewTruckManager ''truck1'' 1000)) ''truck1'')) \<and>
   registry_inv (snd (UpdateTruckCargo (snd (AddTruck NewTruckManager ''truck1'' 1000)) ''truck1'' (- 5))) \<and>
   registry_inv (snd (RemoveTruck (snd (AddTruck NewTruckManager ''truck1'' 1000)) ''truck1''))"
proof -
  let ?tm = "snd (AddTruck NewTruckManager ''truck1'' 1000)"
  have inv: "registry_inv ?tm"
    using registry_inv_preserved [of NewTruckManager "''truck1''" 1000] by simp
  have key: "fmlookup (trucks ?tm) ''truck1'' = Some 0"
    by (simp add: AddTruck_def NewTruckManager_def Let_def)
  have err: "fst (AddTruck ?tm ''truck1'' (- 5)) = Some ErrInvalidCargo"
    by (simp add: AddTruck_def)
  from inv key err registry_inv_preserved [of ?tm "''truck1''" "- 5"]
  show ?thesis by simp
qed

subsection \<open>The outcomes of \<^verbatim>\<open>AddTruck\<close>\<close>

text \<open>
  C3. \<^verbatim>\<open>AddTruck(id, cargo)\<close> returns \<^verbatim>\<open>ErrEmptyID\<close> when the id is empty;
  otherwise \<^verbatim>\<open>ErrInvalidCargo\<close> when the cargo is negative; otherwise
  \<^verbatim>\<open>ErrTruckExist\<close> when the id is already a key; otherwise it returns \<^verbatim>\<open>nil\<close>,
  the id is a key afterwards, bound to the record \<open>{id, cargo}\<close>, and the map
  has exactly one key more. Every call returns \<^verbatim>\<open>nil\<close> or one of these three
  errors; the result is a single value, so never two of them.
\<close>

theorem AddTruck_outcomes:
  "(tid = [] \<longrightarrow> fst (AddTruck tm tid cargo) = Some ErrEmptyID) \<and>
   (tid \<noteq> [] \<and> cargo < 0 \<longrightarrow> fst (AddTruck tm tid cargo) = Some ErrInvalidCargo) \<and>
   (tid \<noteq> [] \<and> 0 \<le> cargo \<and> tid |\<in>| fmdom (trucks tm) \<longrightarrow>
      fst (AddTruck tm tid cargo) = Some ErrTruckExist) \<and>
   (tid \<noteq> [] \<and> 0 \<le> cargo \<and> tid |\<notin>| fmdom (trucks tm) \<longrightarrow>
      fst (AddTruck tm tid cargo) = None \<and>
      tid |\<in>| fmdom (trucks (snd (AddTruck tm tid cargo))) \<and>
      fst (GetTruck (snd (AddTruck tm tid cargo)) tid) = (\<lparr>ID = tid, Cargo = cargo\<rparr>, None) \<and>
      fcard (fmdom (trucks (snd (AddTruck tm tid cargo)))) = fcard (fmdom (trucks tm)) + 1) \<and>
   fst (AddTruck tm tid cargo) \<in> {None, Some ErrEmptyID, Some ErrInvalidCargo, Some ErrTruckExist}"
proof -
  have absent: "fmlookup (trucks tm) tid = None" if "tid |\<notin>| fmdom (trucks tm)"
    using that by (rule fmdom_notD)
  have present: "\<exists>p. fmlookup (trucks tm) tid = Some p" if "tid |\<in>| fmdom (trucks tm)"
    using that by (simp add: fmlookup_dom_iff)
  have c1: "tid = [] \<longrightarrow> fst (AddTruck tm tid cargo) = Some ErrEmptyID"
    by (simp add: AddTruck_def)
  have c2: "tid \<noteq> [] \<and> cargo < 0 \<longrightarrow> fst (AddTruck tm tid cargo) = Some ErrInvalidCargo"
    by (simp add: AddTruck_def)
  have c3: "tid \<noteq> [] \<and> 0 \<le> cargo \<and> tid |\<in>| fmdom (trucks tm) \<longrightarrow>
      fst (AddTruck tm tid cargo) = Some ErrTruckExist"
    using present by (auto simp: AddTruck_def)
  have c4: "tid \<noteq> [] \<and> 0 \<le> cargo \<and> tid |\<notin>| fmdom (trucks tm) \<longrightarrow>
      fst (AddTruck tm tid cargo) = None \<and>
      tid |\<in>| fmdom (trucks (snd (AddTruck tm tid cargo))) \<and>
      fst (GetTruck (snd (AddTruck tm tid cargo)) tid) = (\<lparr>ID = tid, Cargo = cargo\<rparr>, None) \<and>
      fcard (fmdom (trucks (snd (AddTruck tm tid cargo)))) = fcard (fmdom (trucks tm)) + 1"
  proof
    assume h: "tid \<noteq> [] \<and> 0 \<le> cargo \<and> tid |\<notin>| fmdom (trucks tm)"
    then have look: "fmlookup (trucks tm) tid = None" using absent by simp
    from h have card: "fcard (finsert tid (fmdom (trucks tm))) = Suc (fcard (fmdom (trucks tm)))"
      by (simp add: fcard_finsert_disjoint)
    from h look card show
      "fst (AddTruck tm tid cargo) = None \<and>
       tid |\<in>| fmdom (trucks (snd (AddTruck tm tid cargo))) \<and>
       fst (GetTruck (snd (AddTruck tm tid cargo)) tid) = (\<lparr>ID = tid, Cargo = cargo\<rparr>, None) \<and>
       fcard (fmdom (trucks (snd (AddTruck tm tid cargo)))) = fcard (fmdom (trucks tm)) + 1"
      by (simp add: AddTruck_def GetTruck_def Let_def)
  qed
  have c5: "fst (AddTruck tm tid cargo)
      \<in> {None, Some ErrEmptyID, Some ErrInvalidCargo, Some ErrTruckExist}"
    by (simp add: AddTruck_def Let_def split: option.splits)
  from c1 c2 c3 c4 c5 show ?thesis by blast
qed

text \<open>
  The four outcomes on concrete calls: an empty id, a negative cargo, a
  duplicate, and a new key (the size goes from 1 to 2).
\<close>

theorem AddTruck_outcomes_witness:
  "fst (AddTruck NewTruckManager [] 7) = Some ErrEmptyID \<and>
   fst (AddTruck NewTruckManager ''truck1'' (- 1)) = Some ErrInvalidCargo \<and>
   ''truck1'' |\<in>| fmdom (trucks (snd (AddTruck NewTruckManager ''truck1'' 1000))) \<and>
   fst (AddTruck (snd (AddTruck NewTruckManager ''truck1'' 1000)) ''truck1'' 1500)
     = Some ErrTruckExist \<and>
   ''truck2'' |\<notin>| fmdom (trucks (snd (AddTruck NewTruckManager ''truck1'' 1000))) \<and>
   fst (AddTruck (snd (AddTruck NewTruckManager ''truck1'' 1000)) ''truck2'' 2000) = None \<and>
   fcard (fmdom (trucks (snd (AddTruck NewTruckManager ''truck1'' 1000)))) = 1 \<and>
   fcard (fmdom (trucks (snd (AddTruck (snd (AddTruck NewTruckManager ''truck1'' 1000))
                                 ''truck2'' 2000)))) = 2"
proof -
  let ?tm = "snd (AddTruck NewTruckManager ''truck1'' 1000)"
  have dom0: "fmdom (trucks NewTruckManager) = {||}"
    by (simp add: NewTruckManager_def)
  have dom1: "fmdom (trucks ?tm) = {|''truck1''|}"
    by (simp add: AddTruck_def NewTruckManager_def Let_def)
  have size0: "fcard (fmdom (trucks NewTruckManager)) = 0"
    by (simp add: dom0)
  from dom0 dom1 size0
    AddTruck_outcomes [of "[]" NewTruckManager 7]
    AddTruck_outcomes [of "''truck1''" NewTruckManager "- 1"]
    AddTruck_outcomes [of "''truck1''" NewTruckManager 1000]
    AddTruck_outcomes [of "''truck1''" ?tm 1500]
    AddTruck_outcomes [of "''truck2''" ?tm 2000]
  show ?thesis by simp
qed

subsection \<open>A failing \<^verbatim>\<open>AddTruck\<close> changes nothing\<close>

text \<open>
  C4. Whenever \<^verbatim>\<open>AddTruck\<close> returns an error, the state after the call is the
  state before it. In particular an add of an id that is already a key
  returns an error and \<^verbatim>\<open>GetTruck\<close> of that id returns afterwards what it
  returned before: the stored record keeps its cargo.
\<close>

theorem AddTruck_error_unchanged:
  "(fst (AddTruck tm tid cargo) \<noteq> None \<longrightarrow> snd (AddTruck tm tid cargo) = tm) \<and>
   (tid |\<in>| fmdom (trucks tm) \<longrightarrow>
      fst (AddTruck tm tid cargo) \<noteq> None \<and>
      fst (GetTruck (snd (AddTruck tm tid cargo)) tid) = fst (GetTruck tm tid))"
proof -
  have unchanged: "fst (AddTruck tm tid cargo) \<noteq> None \<longrightarrow> snd (AddTruck tm tid cargo) = tm"
    by (simp add: AddTruck_def Let_def split: option.splits)
  have dup: "fst (AddTruck tm tid cargo) \<noteq> None" if "tid |\<in>| fmdom (trucks tm)"
  proof -
    from that obtain p where "fmlookup (trucks tm) tid = Some p"
      by (auto simp: fmlookup_dom_iff)
    then show ?thesis by (simp add: AddTruck_def)
  qed
  from unchanged dup show ?thesis by simp
qed

text \<open>
  The scenario of the demonstration: \<open>truck1\<close> is added with 1000, the second
  add with 1500 fails, and the record still has 1000.
\<close>

theorem AddTruck_error_unchanged_witness:
  "''truck1'' |\<in>| fmdom (trucks (snd (AddTruck NewTruckManager ''truck1'' 1000))) \<and>
   fst (AddTruck (snd (AddTruck NewTruckManager ''truck1'' 1000)) ''truck1'' 1500)
     = Some ErrTruckExist \<and>
   snd (AddTruck (snd (AddTruck NewTruckManager ''truck1'' 1000)) ''truck1'' 1500)
     = snd (AddTruck NewTruckManager ''truck1'' 1000) \<and>
   fst (GetTruck (snd (AddTruck (snd (AddTruck NewTruckManager ''truck1'' 1000)) ''truck1'' 1500))
          ''truck1'')
     = (\<lparr>ID = ''truck1'', Cargo = 1000\<rparr>, None)"
proof -
  let ?tm = "snd (AddTruck NewTruckManager ''truck1'' 1000)"
  have key: "fmlookup (trucks ?tm) ''truck1'' = Some 0"
    by (simp add: AddTruck_def NewTruckManager_def Let_def)
  then have dom: "''truck1'' |\<in>| fmdom (trucks ?tm)"
    by (rule fmdomI)
  have err: "fst (AddTruck ?tm ''truck1'' 1500) = Some ErrTruckExist"
    using key by (simp add: AddTruck_def)
  have got: "fst (GetTruck ?tm ''truck1'') = (\<lparr>ID = ''truck1'', Cargo = 1000\<rparr>, None)"
    by (simp add: GetTruck_def AddTruck_def NewTruckManager_def Let_def)
  from dom err got AddTruck_error_unchanged [of ?tm "''truck1''" 1500]
  show ?thesis by simp
qed

subsection \<open>Update, then get, and the other records\<close>

text \<open>
  C5. In every registry built from \<^verbatim>\<open>NewTruckManager()\<close> by a sequence of calls of
  the four methods, for an id that is a key and a new cargo \<open>\<ge> 0\<close>, \<^verbatim>\<open>UpdateTruckCargo(id, newCargo)\<close> returns \<^verbatim>\<open>nil\<close>, \<^verbatim>\<open>GetTruck(id)\<close>
  returns \<open>{id, newCargo}\<close> afterwards, the set of keys and their pointers is
  the same, and the record stored under every other key is the same record
  with the same contents, so that \<^verbatim>\<open>GetTruck\<close> of any other id returns what it
  returned before.
\<close>

theorem UpdateTruckCargo_then_GetTruck:
  assumes "tm = run NewTruckManager cs" and "tid |\<in>| fmdom (trucks tm)" and "0 \<le> newCargo"
  shows "fst (UpdateTruckCargo tm tid newCargo) = None \<and>
         fst (GetTruck (snd (UpdateTruckCargo tm tid newCargo)) tid)
           = (\<lparr>ID = tid, Cargo = newCargo\<rparr>, None) \<and>
         trucks (snd (UpdateTruckCargo tm tid newCargo)) = trucks tm \<and>
         (\<forall>k p. k \<noteq> tid \<and> fmlookup (trucks tm) k = Some p \<longrightarrow>
            heap (snd (UpdateTruckCargo tm tid newCargo)) p = heap tm p) \<and>
         (\<forall>k. k \<noteq> tid \<longrightarrow>
            fst (GetTruck (snd (UpdateTruckCargo tm tid newCargo)) k) = fst (GetTruck tm k))"
proof -
  from assms(1) have rinv: "registry_inv tm" and cinv: "cells_inv tm"
    by (simp_all add: run_New_invs)
  from assms(2) obtain q where q: "fmlookup (trucks tm) tid = Some q"
    by (auto simp: fmlookup_dom_iff)
  from rinv q have nonempty: "tid \<noteq> []"
    by (auto simp: registry_inv_def fmpred_iff)
  from cinv q have idq: "ID (heap tm q) = tid"
    by (auto simp: cells_inv_def fmpred_iff)
  let ?tm' = "tm\<lparr>heap := (heap tm)(q := (heap tm q)\<lparr>Cargo := newCargo\<rparr>)\<rparr>"
  from nonempty assms(3) q
  have run: "UpdateTruckCargo tm tid newCargo = (None, ?tm')"
    by (simp add: UpdateTruckCargo_def)
  have other: "p \<noteq> q" if "k \<noteq> tid" and "fmlookup (trucks tm) k = Some p" for k p
    using cells_inv_inj [OF cinv that(2)] q that(1) by auto
  have a: "fst (GetTruck ?tm' tid) = (\<lparr>ID = tid, Cargo = newCargo\<rparr>, None)"
    using nonempty q idq by (simp add: GetTruck_def)
  have b: "\<forall>k p. k \<noteq> tid \<and> fmlookup (trucks tm) k = Some p \<longrightarrow> heap ?tm' p = heap tm p"
    using other by auto
  have c: "\<forall>k. k \<noteq> tid \<longrightarrow> fst (GetTruck ?tm' k) = fst (GetTruck tm k)"
    using other by (auto simp: GetTruck_def split: option.splits)
  from a b c show ?thesis by (simp add: run)
qed

text \<open>
  The instance: after \<open>truck1\<close> (1000) and \<open>truck2\<close> (2000) are added, updating
  \<open>truck1\<close> to 1500 is seen by \<^verbatim>\<open>GetTruck\<close> and \<open>truck2\<close> still has 2000.
\<close>

theorem UpdateTruckCargo_then_GetTruck_witness:
  "''truck1'' |\<in>| fmdom (trucks (run NewTruckManager
       [CallAddTruck ''truck1'' 1000, CallAddTruck ''truck2'' 2000])) \<and>
   fst (UpdateTruckCargo (run NewTruckManager
       [CallAddTruck ''truck1'' 1000, CallAddTruck ''truck2'' 2000]) ''truck1'' 1500) = None \<and>
   fst (GetTruck (snd (UpdateTruckCargo (run NewTruckManager
       [CallAddTruck ''truck1'' 1000, CallAddTruck ''truck2'' 2000]) ''truck1'' 1500)) ''truck1'')
     = (\<lparr>ID = ''truck1'', Cargo = 1500\<rparr>, None) \<and>
   fst (GetTruck (snd (UpdateTruckCargo (run NewTruckManager
       [CallAddTruck ''truck1'' 1000, CallAddTruck ''truck2'' 2000]) ''truck1'' 1500)) ''truck2'')
     = (\<lparr>ID = ''truck2'', Cargo = 2000\<rparr>, None)"
proof -
  let ?tm = "run NewTruckManager [CallAddTruck ''truck1'' 1000, CallAddTruck ''truck2'' 2000]"
  have dom: "''truck1'' |\<in>| fmdom (trucks ?tm)"
    by (simp add: AddTruck_def NewTruckManager_def Let_def)
  have t2: "fst (GetTruck ?tm ''truck2'') = (\<lparr>ID = ''truck2'', Cargo = 2000\<rparr>, None)"
    by (simp add: GetTruck_def AddTruck_def NewTruckManager_def Let_def)
  have ne: "''truck2'' \<noteq> ''truck1''" by simp
  from UpdateTruckCargo_then_GetTruck [OF refl dom, of 1500] dom t2 ne
  show ?thesis by simp
qed

subsection \<open>Remove, then get\<close>

text \<open>
  C6. For a non-empty id that is a key, \<^verbatim>\<open>RemoveTruck(id)\<close> returns \<^verbatim>\<open>nil\<close>, the id
  is no key afterwards, and \<^verbatim>\<open>GetTruck(id)\<close> on the state it leaves returns
  \<^verbatim>\<open>Truck{}\<close> with \<^verbatim>\<open>ErrTruckNotFound\<close>.
\<close>

theorem RemoveTruck_then_GetTruck:
  assumes "tid \<noteq> []" and "tid |\<in>| fmdom (trucks tm)"
  shows "fst (RemoveTruck tm tid) = None \<and>
         tid |\<notin>| fmdom (trucks (snd (RemoveTruck tm tid))) \<and>
         fst (GetTruck (snd (RemoveTruck tm tid)) tid) = (zeroTruck, Some ErrTruckNotFound)"
proof -
  from assms(2) obtain p where "fmlookup (trucks tm) tid = Some p"
    by (auto simp: fmlookup_dom_iff)
  with assms(1) show ?thesis
    by (simp add: RemoveTruck_def GetTruck_def)
qed

theorem RemoveTruck_then_GetTruck_witness:
  "''truck1'' \<noteq> [] \<and>
   ''truck1'' |\<in>| fmdom (trucks (snd (AddTruck NewTruckManager ''truck1'' 1000))) \<and>
   fst (RemoveTruck (snd (AddTruck NewTruckManager ''truck1'' 1000)) ''truck1'') = None \<and>
   fst (GetTruck (snd (RemoveTruck (snd (AddTruck NewTruckManager ''truck1'' 1000)) ''truck1''))
          ''truck1'')
     = (\<lparr>ID = [], Cargo = 0\<rparr>, Some ErrTruckNotFound)"
proof -
  let ?tm = "snd (AddTruck NewTruckManager ''truck1'' 1000)"
  have dom: "''truck1'' |\<in>| fmdom (trucks ?tm)"
    by (simp add: AddTruck_def NewTruckManager_def Let_def)
  from dom RemoveTruck_then_GetTruck [of "''truck1''" ?tm]
  show ?thesis by (simp add: zeroTruck_def)
qed

subsection \<open>Absent ids\<close>

text \<open>
  C7. For a non-empty id that is no key of the registry, \<^verbatim>\<open>GetTruck(id)\<close>,
  \<^verbatim>\<open>UpdateTruckCargo(id, cargo)\<close> with cargo \<open>\<ge> 0\<close>, and \<^verbatim>\<open>RemoveTruck(id)\<close> each
  return \<^verbatim>\<open>ErrTruckNotFound\<close>.
\<close>

theorem absent_id_NotFound:
  assumes "tid \<noteq> []" and "tid |\<notin>| fmdom (trucks tm)" and "0 \<le> cargo"
  shows "snd (fst (GetTruck tm tid)) = Some ErrTruckNotFound \<and>
         fst (UpdateTruckCargo tm tid cargo) = Some ErrTruckNotFound \<and>
         fst (RemoveTruck tm tid) = Some ErrTruckNotFound"
proof -
  from assms(2) have "fmlookup (trucks tm) tid = None" by (rule fmdom_notD)
  with assms(1,3) show ?thesis
    by (simp add: GetTruck_def UpdateTruckCargo_def RemoveTruck_def)
qed

theorem absent_id_NotFound_witness:
  "''truck2'' \<noteq> [] \<and>
   ''truck2'' |\<notin>| fmdom (trucks (snd (AddTruck NewTruckManager ''truck1'' 1000))) \<and>
   (0::int) \<le> 2000 \<and>
   snd (fst (GetTruck (snd (AddTruck NewTruckManager ''truck1'' 1000)) ''truck2''))
     = Some ErrTruckNotFound \<and>
   fst (UpdateTruckCargo (snd (AddTruck NewTruckManager ''truck1'' 1000)) ''truck2'' 2000)
     = Some ErrTruckNotFound \<and>
   fst (RemoveTruck (snd (AddTruck NewTruckManager ''truck1'' 1000)) ''truck2'')
     = Some ErrTruckNotFound"
proof -
  let ?tm = "snd (AddTruck NewTruckManager ''truck1'' 1000)"
  have dom: "''truck2'' |\<notin>| fmdom (trucks ?tm)"
    by (simp add: AddTruck_def NewTruckManager_def Let_def)
  from dom absent_id_NotFound [of "''truck2''" ?tm 2000]
  show ?thesis by simp
qed

subsection \<open>\<^verbatim>\<open>GetTruck\<close> only reads\<close>

text \<open>
  C8. \<^verbatim>\<open>GetTruck(id)\<close> never modifies the registry: for every state and every id,
  whether it returns a record or an error, the state after the call is the
  state before it. What it returns is a \<^verbatim>\<open>Truck\<close> value, the contents of the
  stored record, not its pointer: whatever the caller does to that value (any
  function \<open>f\<close> applied to the returned record), the registry is still the one
  before the call and \<^verbatim>\<open>GetTruck\<close> of any id \<open>k\<close> returns what it returned before.
\<close>

theorem GetTruck_readonly:
  "snd (GetTruck tm tid) = tm \<and>
   snd (apfst (apfst f) (GetTruck tm tid)) = tm \<and>
   GetTruck (snd (apfst (apfst f) (GetTruck tm tid))) k = GetTruck tm k"
proof -
  have "snd (GetTruck tm tid) = tm"
    by (simp add: GetTruck_def split: option.splits)
  then show ?thesis by simp
qed

text \<open>
  The instance: the caller sets the cargo of the record it got for \<open>truck1\<close> to
  5; the registry still returns 1000.
\<close>

theorem GetTruck_readonly_witness:
  "fst (apfst (apfst (\<lambda>t. t\<lparr>Cargo := 5\<rparr>))
          (GetTruck (snd (AddTruck NewTruckManager ''truck1'' 1000)) ''truck1''))
     = (\<lparr>ID = ''truck1'', Cargo = 5\<rparr>, None) \<and>
   snd (apfst (apfst (\<lambda>t. t\<lparr>Cargo := 5\<rparr>))
          (GetTruck (snd (AddTruck NewTruckManager ''truck1'' 1000)) ''truck1''))
     = snd (AddTruck NewTruckManager ''truck1'' 1000) \<and>
   fst (GetTruck (snd (apfst (apfst (\<lambda>t. t\<lparr>Cargo := 5\<rparr>))
          (GetTruck (snd (AddTruck NewTruckManager ''truck1'' 1000)) ''truck1''))) ''truck1'')
     = (\<lparr>ID = ''truck1'', Cargo = 1000\<rparr>, None)"
proof -
  let ?tm = "snd (AddTruck NewTruckManager ''truck1'' 1000)"
  have got: "fst (GetTruck ?tm ''truck1'') = (\<lparr>ID = ''truck1'', Cargo = 1000\<rparr>, None)"
    by (simp add: GetTruck_def AddTruck_def NewTruckManager_def Let_def)
  from got GetTruck_readonly [of ?tm "''truck1''" "\<lambda>t. t\<lparr>Cargo := 5\<rparr>" "''truck1''"]
  show ?thesis by simp
qed

subsection \<open>The empty id is reported first\<close>

text \<open>
  C10. When the id is empty and the cargo is negative, \<^verbatim>\<open>AddTruck\<close> and
  \<^verbatim>\<open>UpdateTruckCargo\<close> both return \<^verbatim>\<open>ErrEmptyID\<close>, not \<^verbatim>\<open>ErrInvalidCargo\<close>, and leave
  the state as it was: the id is checked before the cargo.
\<close>

theorem empty_id_before_cargo:
  assumes "cargo < 0"
  shows "AddTruck tm [] cargo = (Some ErrEmptyID, tm) \<and>
         UpdateTruckCargo tm [] cargo = (Some ErrEmptyID, tm)"
  by (simp add: AddTruck_def UpdateTruckCargo_def)

theorem empty_id_before_cargo_witness:
  "(- 1 :: int) < 0 \<and>
   fst (AddTruck NewTruckManager [] (- 1)) = Some ErrEmptyID \<and>
   fst (UpdateTruckCargo NewTruckManager [] (- 1)) = Some ErrEmptyID \<and>
   fst (AddTruck NewTruckManager [] (- 1)) \<noteq> Some ErrInvalidCargo"
  using empty_id_before_cargo [of "- 1" NewTruckManager]
  by simp

end
